theory Spec2Isabelle
  imports Complex_Main "HOL-Library.AList" "HOL-Library.Log_Nat"
begin

section \<open>Values\<close>

text \<open>
  A Python \<open>float\<close>. The request parameters \<open>amount\<close> and \<open>fail_rate\<close> are parsed from
  the request, so the infinities and NaN can reach the handler. A finite float is
  modelled by the real number it denotes. The floats of a request are only compared,
  stored and passed on, which is exact; the one computation on floats, the duration of
  the maintenance task, is done on doubles with their rounding, below.
\<close>

datatype pyfloat = Finite real | PosInf | NegInf | NaN

text \<open>Python's \<open>a < b\<close> on floats: every comparison with NaN is false.\<close>

fun float_lt :: "pyfloat \<Rightarrow> pyfloat \<Rightarrow> bool" where
  "float_lt NaN b = False"
| "float_lt a NaN = False"
| "float_lt (Finite a) (Finite b) = (a < b)"
| "float_lt (Finite a) PosInf = True"
| "float_lt (Finite a) NegInf = False"
| "float_lt NegInf NegInf = False"
| "float_lt NegInf b = True"
| "float_lt PosInf b = False"

text \<open>Python's \<open>a <= b\<close> on floats.\<close>

fun float_le :: "pyfloat \<Rightarrow> pyfloat \<Rightarrow> bool" where
  "float_le NaN b = False"
| "float_le a NaN = False"
| "float_le (Finite a) (Finite b) = (a \<le> b)"
| "float_le (Finite a) PosInf = True"
| "float_le (Finite a) NegInf = False"
| "float_le NegInf b = True"
| "float_le PosInf PosInf = True"
| "float_le PosInf b = False"

subsection \<open>Arithmetic on doubles\<close>









subsection \<open>Strings\<close>

text \<open>
  A Python \<open>str\<close> is modelled by the bytes of its UTF-8 encoding. A \<open>str\<close> can hold a
  surrogate code point (U+D800 to U+DFFF), which has no UTF-8 encoding; it stands here
  as the three bytes the encoding scheme would give it: 0xED, a byte from 0xA0 to 0xBF,
  and a continuation byte. In the encoding of every other code point the byte 0xED is
  followed by a byte from 0x80 to 0x9F.
\<close>

fun has_surrogate :: "string \<Rightarrow> bool" where
  "has_surrogate (a # b # cs) =
     ((of_char a = (237::nat) \<and> (160::nat) \<le> of_char b \<and> of_char b \<le> (191::nat))
      \<or> has_surrogate (b # cs))"
| "has_surrogate cs = False"

text \<open>\<open>class TransactionModel(BaseModel): amount: float; currency: str = "EUR"\<close>\<close>

record TransactionModel =
  amount :: pyfloat
  currency :: string

text \<open>
  The exceptions of the handlers: \<open>sqlite3.OperationalError(message)\<close>,
  \<open>UnicodeEncodeError\<close> with the \<open>str\<close> that could not be encoded, and
  \<open>fastapi.HTTPException(status_code, detail)\<close>.
\<close>

datatype exn = OperationalError string | UnicodeEncodeError string | HTTPException nat string

text \<open>The JSON bodies the handlers return: a Python dict, in insertion order.\<close>

datatype jvalue = JStr string | JInt int | JFloat pyfloat | JNull

type_synonym body = "(string \<times> jvalue) list"


section \<open>The record store\<close>

text \<open>
  One row of the table created by \<open>get_conn\<close>:
  \<open>(id INTEGER PRIMARY KEY, amount REAL, currency TEXT, status TEXT)\<close>.
  A database is its tables by name, in creation order. A row holds the values the
  engine stores for the statement's parameters; the amount is \<open>None\<close> for SQL NULL.

  Of the ways an insert can fail, two are modelled: the statement names a table that
  does not exist, and a parameter is a \<open>str\<close> that has no UTF-8 encoding. A database
  file that cannot be opened or written, and a row beyond the length limit the engine
  was built with (a gigabyte by default), depend on the installation and are outside
  the model.
\<close>

record row =
  col_id :: int
  col_amount :: "pyfloat option"
  col_currency :: string
  col_status :: string

type_synonym database = "(string \<times> row list) list"

datatype sql =
    CreateTableIfNotExists string
  | InsertInto string pyfloat string string

text \<open>The engine's choice of \<open>id\<close> for an insert that gives none: one more than the largest.\<close>

definition next_row_id :: "row list \<Rightarrow> int" where
  "next_row_id rs = (case rs of [] \<Rightarrow> 1 | r # rs' \<Rightarrow> fold max (map col_id rs') (col_id r) + 1)"

text \<open>The engine stores a NaN that is bound to a parameter as NULL.\<close>

definition bind_real :: "pyfloat \<Rightarrow> pyfloat option" where
  "bind_real a = (if a = NaN then None else Some a)"

text \<open>
  A statement is compiled first, which fails for a table that does not exist; then its
  parameters are bound in order, the float, then the two strings, which fails for the
  first \<open>str\<close> without an encoding; then the row is written.
\<close>

definition run_sql :: "sql \<Rightarrow> database \<Rightarrow> exn + database" where
  "run_sql q d =
     (case q of
        CreateTableIfNotExists t \<Rightarrow>
          (case map_of d t of None \<Rightarrow> Inr (d @ [(t, [])]) | Some rs \<Rightarrow> Inr d)
      | InsertInto t a c s \<Rightarrow>
          (case map_of d t of
             None \<Rightarrow> Inl (OperationalError (''no such table: '' @ t))
           | Some rs \<Rightarrow>
               if has_surrogate c then Inl (UnicodeEncodeError c)
               else if has_surrogate s then Inl (UnicodeEncodeError s)
               else Inr (AList.update t
                 (rs @ [\<lparr>col_id = next_row_id rs, col_amount = bind_real a, col_currency = c,
                         col_status = s\<rparr>]) d)))"

section \<open>The process and its effects\<close>

datatype level = INFO | WARNING | ERROR

datatype status_code = StatusUnset | StatusOk | StatusError

datatype attr = AStr string | AFloat pyfloat | AInt int

text \<open>The pieces of a formatted message: literal text, \<open>{x}\<close> and \<open>{x:.2f}\<close> of a float.\<close>

datatype part = Text string | Repr pyfloat | Fixed2 pyfloat

text \<open>
  The effects are those of the handlers' own statements. The spans that the
  instrumentation of the web framework and of the database driver adds around them
  (a server span above \<open>process_payment\<close>, a span for each SQL statement) are not
  part of the handlers and are left out; the span that is active when a handler is
  entered is a field of the state.

  Everything a handler does, in program order: the calls on the tracing SDK
  (span ids and trace ids are numbers), on the APM agent of the second variant, on the
  meter's instruments, on the logger, on the database connection, and the two
  CPU-bound computations (the square-root loop with its iteration count, the sort with
  its result). An effect is the call with its arguments, as the handler makes it.
\<close>

datatype effect =
    SpanStart nat string "nat option" nat
  | SpanEnd nat
  | SetAttribute nat string attr
  | RecordException nat exn
  | SetStatus nat status_code
  | ApmSpanStart string
  | ApmSpanEnd string bool
  | ApmLabel "(string \<times> attr) list"
  | ApmResult string
  | ApmCaptureException exn
  | CounterAdd string int "(string \<times> string) list"
  | HistogramRecord string pyfloat "(string \<times> string) list"
  | LogRecord level "part list" "exn option"
  | SqrtLoop nat
  | SortWork "real list"
  | DbConnect
  | DbExecute sql
  | DbCommit
  | DbClose

text \<open>
  The state a request runs in: the committed database at \<open>DB_PATH\<close>, the effects so
  far, the tracing context's active span (span id, trace id), the id generator of the
  tracing SDK, and the trace id of the APM agent's transaction in progress, if any.
\<close>

record world =
  store :: database
  effects :: "effect list"
  current_span :: "(nat \<times> nat) option"
  next_span_id :: nat
  next_trace_id :: nat
  apm_trace_id :: "string option"

definition emit :: "effect \<Rightarrow> world \<Rightarrow> world" where
  "emit e w = w\<lparr>effects := effects w @ [e]\<rparr>"

definition log_record :: "level \<Rightarrow> part list \<Rightarrow> exn option \<Rightarrow> world \<Rightarrow> world" where
  "log_record l m e w = emit (LogRecord l m e) w"

subsection \<open>The tracing SDK and the meter (first variant)\<close>

definition set_attribute :: "nat \<times> nat \<Rightarrow> string \<Rightarrow> attr \<Rightarrow> world \<Rightarrow> world" where
  "set_attribute sp k v w = emit (SetAttribute (fst sp) k v) w"

definition record_exception :: "nat \<times> nat \<Rightarrow> exn \<Rightarrow> world \<Rightarrow> world" where
  "record_exception sp e w = emit (RecordException (fst sp) e) w"

definition set_status :: "nat \<times> nat \<Rightarrow> status_code \<Rightarrow> world \<Rightarrow> world" where
  "set_status sp c w = emit (SetStatus (fst sp) c) w"

definition counter_add :: "string \<Rightarrow> int \<Rightarrow> (string \<times> string) list \<Rightarrow> world \<Rightarrow> world" where
  "counter_add name v labels w = emit (CounterAdd name v labels) w"

definition histogram_record :: "string \<Rightarrow> pyfloat \<Rightarrow> (string \<times> string) list \<Rightarrow> world \<Rightarrow> world" where
  "histogram_record name v labels w = emit (HistogramRecord name v labels) w"

text \<open>
  \<open>with tracer.start_as_current_span(name) as span: body\<close>. The span is a child of the
  active span and shares its trace id, or starts a new trace when no span is active;
  it is the active span while the body runs. On exit the previous context is restored
  and the span is ended; when the body raises, the exception is recorded on the span
  and its status set to error before it is ended, and the exception propagates.
\<close>

definition start_as_current_span ::
  "string \<Rightarrow> (nat \<times> nat \<Rightarrow> world \<Rightarrow> (exn + 'a) \<times> world) \<Rightarrow> world \<Rightarrow> (exn + 'a) \<times> world" where
  "start_as_current_span name body w =
     (let prev = current_span w;
          sid = next_span_id w;
          tid = (case prev of None \<Rightarrow> next_trace_id w | Some p \<Rightarrow> snd p);
          w1 = emit (SpanStart sid name (map_option fst prev) tid)
                 (w\<lparr>current_span := Some (sid, tid),
                    next_span_id := Suc sid,
                    next_trace_id := (case prev of None \<Rightarrow> Suc (next_trace_id w)
                                      | Some p \<Rightarrow> next_trace_id w)\<rparr>);
          (r, w2) = body (sid, tid) w1;
          w3 = w2\<lparr>current_span := prev\<rparr>
      in case r of
           Inl e \<Rightarrow>
             (Inl e, emit (SpanEnd sid)
                       (set_status (sid, tid) StatusError (record_exception (sid, tid) e w3)))
         | Inr v \<Rightarrow> (Inr v, emit (SpanEnd sid) w3))"

subsection \<open>The APM agent (second variant)\<close>

text \<open>\<open>elasticapm.get_trace_id()\<close>: the transaction's trace id, \<open>None\<close> without one.\<close>

definition get_trace_id :: "world \<Rightarrow> string option" where
  "get_trace_id w = apm_trace_id w"

text \<open>The agent's calls on the current transaction do nothing when there is none.\<close>

definition apm_emit :: "effect \<Rightarrow> world \<Rightarrow> world" where
  "apm_emit e w = (case apm_trace_id w of None \<Rightarrow> w | Some t \<Rightarrow> emit e w)"

definition label :: "(string \<times> attr) list \<Rightarrow> world \<Rightarrow> world" where
  "label kvs w = apm_emit (ApmLabel kvs) w"

definition set_transaction_result :: "string \<Rightarrow> world \<Rightarrow> world" where
  "set_transaction_result r w = apm_emit (ApmResult r) w"

definition capture_exception :: "exn \<Rightarrow> world \<Rightarrow> world" where
  "capture_exception e w = emit (ApmCaptureException e) w"

text \<open>
  \<open>with elasticapm.capture_span(name): body\<close>: the span is ended on exit, with outcome
  failure when the body raised, and the exception propagates.
\<close>

definition capture_span ::
  "string \<Rightarrow> (world \<Rightarrow> (exn + 'a) \<times> world) \<Rightarrow> world \<Rightarrow> (exn + 'a) \<times> world" where
  "capture_span name body w =
     (let (r, w1) = body (apm_emit (ApmSpanStart name) w)
      in (r, apm_emit (ApmSpanEnd name (isl r)) w1))"

text \<open>Python's \<open>str\<close> of an optional string, as an f-string formats it.\<close>

definition str_of :: "string option \<Rightarrow> string" where
  "str_of x = (case x of None \<Rightarrow> ''None'' | Some s \<Rightarrow> s)"

subsection \<open>The database connection\<close>

text \<open>
  A connection sees the committed database and its own uncommitted changes; a
  statement that creates a table is committed at once, an insert when \<open>commit\<close> is
  called. Statements run on the connection directly or through its cursor, which makes
  no difference here.
\<close>

record connection =
  working :: database

definition execute :: "sql \<Rightarrow> connection \<Rightarrow> world \<Rightarrow> (exn + connection) \<times> world" where
  "execute q conn w =
     (let w1 = emit (DbExecute q) w
      in case run_sql q (working conn) of
           Inl e \<Rightarrow> (Inl e, w1)
         | Inr d \<Rightarrow>
             (Inr (conn\<lparr>working := d\<rparr>),
              (case q of CreateTableIfNotExists t \<Rightarrow> w1\<lparr>store := d\<rparr> | InsertInto t a c s \<Rightarrow> w1)))"

definition commit :: "connection \<Rightarrow> world \<Rightarrow> world" where
  "commit conn w = (emit DbCommit w)\<lparr>store := working conn\<rparr>"

definition close :: "connection \<Rightarrow> world \<Rightarrow> world" where
  "close conn w = emit DbClose w"

text \<open>
  \<open>get_conn\<close> (the same in both variants): connect, create the table \<open>transactions\<close>
  unless it exists, return the connection.
\<close>

definition get_conn :: "world \<Rightarrow> (exn + connection) \<times> world" where
  "get_conn w =
     execute (CreateTableIfNotExists ''transactions'') \<lparr>working = store w\<rparr> (emit DbConnect w)"

section \<open>The transaction handler, first variant (app4.py)\<close>

text \<open>
  The \<open>try\<close> block of \<open>process_transaction\<close>. \<open>draw\<close> is the value \<open>random.random()\<close>
  returns in this request. An exception of any call leaves the block at once.
\<close>

definition save_transaction ::
  "TransactionModel \<Rightarrow> pyfloat \<Rightarrow> real \<Rightarrow> world \<Rightarrow> (exn + unit) \<times> world" where
  "save_transaction txn fail_rate draw w =
     (case get_conn w of
        (Inl e, w1) \<Rightarrow> (Inl e, w1)
      | (Inr conn, w1) \<Rightarrow>
          if float_lt (Finite draw) fail_rate then
            (case execute (InsertInto ''fake_db'' (amount txn) (currency txn) ''SUCCESS'') conn w1 of
               (Inl e, w2) \<Rightarrow> (Inl e, w2)
             | (Inr conn', w2) \<Rightarrow> (Inr (), close conn' (commit conn' w2)))
          else
            (case execute (InsertInto ''transactions'' (amount txn) (currency txn) ''SUCCESS'') conn w1 of
               (Inl e, w2) \<Rightarrow> (Inl e, w2)
             | (Inr conn', w2) \<Rightarrow> (Inr (), close conn' (commit conn' w2))))"

text \<open>
  The body of the span \<open>fraud_check\<close>: the loop of 500000 square roots, then a log
  line. The clock reading \<open>start\<close> and the sum \<open>val\<close> are never read and are left out.
\<close>

definition fraud_check :: "nat \<times> nat \<Rightarrow> world \<Rightarrow> (exn + unit) \<times> world" where
  "fraud_check sp w =
     (Inr (), log_record INFO [Text ''Fraud check passed successfully''] None (emit (SqrtLoop 500000) w))"

text \<open>
  The body of the span \<open>process_payment\<close>, with the span as \<open>sp\<close>: the two
  attributes, a log line, the span \<open>fraud_check\<close>, the \<open>try\<close> block with its handler,
  and after it the two metrics and the returned dict.
\<close>

definition process_payment ::
  "TransactionModel \<Rightarrow> pyfloat \<Rightarrow> real \<Rightarrow> nat \<times> nat \<Rightarrow> world \<Rightarrow> (exn + body) \<times> world" where
  "process_payment txn fail_rate draw sp w =
     (let w1 = set_attribute sp ''transaction.currency'' (AStr (currency txn)) w;
          w2 = set_attribute sp ''transaction.amount'' (AFloat (amount txn)) w1;
          w3 = log_record INFO
                 [Text ''Starting transaction processing for '', Repr (amount txn),
                  Text '' '', Text (currency txn)] None w2
      in case start_as_current_span ''fraud_check'' fraud_check w3 of
           (Inl e, w4) \<Rightarrow> (Inl e, w4)
         | (Inr u, w4) \<Rightarrow>
             (case save_transaction txn fail_rate draw w4 of
                (Inl e, w5) \<Rightarrow>
                  (let w6 = record_exception sp e w5;
                       w7 = set_status sp StatusError w6;
                       w8 = log_record ERROR [Text ''Database failed to save transaction''] (Some e) w7
                   in (Inl (HTTPException 500 ''Transaction failed''), w8))
              | (Inr u', w5) \<Rightarrow>
                  (let w6 = counter_add ''business.transactions.total'' 1
                              [(''currency'', currency txn), (''status'', ''success'')] w5;
                       w7 = histogram_record ''business.transaction.value'' (amount txn)
                              [(''currency'', currency txn)] w6
                   in (Inr [(''status'', JStr ''processed''), (''trace_id'', JInt (int (snd sp)))], w7))))"

text \<open>The handler: the body above inside the span \<open>process_payment\<close>.\<close>

definition process_transaction ::
  "TransactionModel \<Rightarrow> pyfloat \<Rightarrow> real \<Rightarrow> world \<Rightarrow> (exn + body) \<times> world" where
  "process_transaction txn fail_rate draw w =
     start_as_current_span ''process_payment'' (process_payment txn fail_rate draw) w"

section \<open>The transaction handler, second variant (app5-elk.py)\<close>

text \<open>
  The \<open>try\<close> block of the second variant: one \<open>commit\<close> and \<open>close\<close> after the
  branch, then the label and the result of the APM transaction.
\<close>

definition save_transaction_elk ::
  "TransactionModel \<Rightarrow> pyfloat \<Rightarrow> real \<Rightarrow> world \<Rightarrow> (exn + unit) \<times> world" where
  "save_transaction_elk txn fail_rate draw w =
     (case get_conn w of
        (Inl e, w1) \<Rightarrow> (Inl e, w1)
      | (Inr conn, w1) \<Rightarrow>
          (case (if float_lt (Finite draw) fail_rate
                 then execute (InsertInto ''fake_db'' (amount txn) (currency txn) ''SUCCESS'') conn w1
                 else execute (InsertInto ''transactions'' (amount txn) (currency txn) ''SUCCESS'') conn w1) of
             (Inl e, w2) \<Rightarrow> (Inl e, w2)
           | (Inr conn', w2) \<Rightarrow>
               (let w3 = close conn' (commit conn' w2);
                    w4 = label [(''business_status'', AStr ''success'')] w3;
                    w5 = set_transaction_result ''SUCCESS'' w4
                in (Inr (), w5))))"

definition fraud_check_elk :: "world \<Rightarrow> (exn + unit) \<times> world" where
  "fraud_check_elk w =
     (Inr (), log_record INFO [Text ''Fraud check passed successfully''] None (emit (SqrtLoop 500000) w))"

definition process_payment_elk ::
  "TransactionModel \<Rightarrow> pyfloat \<Rightarrow> real \<Rightarrow> world \<Rightarrow> (exn + body) \<times> world" where
  "process_payment_elk txn fail_rate draw w =
     (let w1 = label [(''transaction_currency'', AStr (currency txn)),
                      (''transaction_amount'', AFloat (amount txn))] w;
          w2 = log_record INFO
                 [Text ''Starting transaction processing for '', Repr (amount txn),
                  Text '' '', Text (currency txn)] None w1
      in case capture_span ''fraud_check'' fraud_check_elk w2 of
           (Inl e, w3) \<Rightarrow> (Inl e, w3)
         | (Inr u, w3) \<Rightarrow>
             (case save_transaction_elk txn fail_rate draw w3 of
                (Inl e, w4) \<Rightarrow>
                  (let w5 = capture_exception e w4;
                       w6 = label [(''business_status'', AStr ''failed'')] w5;
                       w7 = set_transaction_result ''FAILURE'' w6;
                       w8 = log_record ERROR [Text ''Database failed to save transaction''] (Some e) w7
                   in (Inl (HTTPException 500
                         (''Transaction failed. trace_id: '' @ str_of (get_trace_id w8))), w8))
              | (Inr u', w4) \<Rightarrow>
                  (Inr [(''status'', JStr ''processed''),
                        (''trace_id'', (case get_trace_id w4 of None \<Rightarrow> JNull | Some t \<Rightarrow> JStr t))],
                   w4)))"

text \<open>The handler: the body above inside the APM span \<open>process_payment\<close>.\<close>

definition process_transaction_elk ::
  "TransactionModel \<Rightarrow> pyfloat \<Rightarrow> real \<Rightarrow> world \<Rightarrow> (exn + body) \<times> world" where
  "process_transaction_elk txn fail_rate draw w =
     capture_span ''process_payment'' (process_payment_elk txn fail_rate draw) w"

section \<open>The maintenance handler (app4.py)\<close>




section \<open>Serving requests\<close>

text \<open>
  A request to \<open>process_transaction\<close>: the body, the parameter \<open>fail_rate\<close>, and the
  value \<open>random.random()\<close> returns while it is handled. The requests are handled
  one after the other on the same process state.
\<close>

type_synonym request = "TransactionModel \<times> pyfloat \<times> real"

fun serve :: "request list \<Rightarrow> world \<Rightarrow> (exn + body) list \<times> world" where
  "serve [] w = ([], w)"
| "serve ((txn, fail_rate, draw) # reqs) w =
     (let (r, w1) = process_transaction txn fail_rate draw w;
          (rs, w2) = serve reqs w1
      in (r # rs, w2))"

text \<open>The effects a handler added to those of the state it started in.\<close>

definition new_effects :: "world \<Rightarrow> world \<Rightarrow> effect list" where
  "new_effects w w' = drop (length (effects w)) (effects w')"

fun is_span_start :: "effect \<Rightarrow> bool" where
  "is_span_start (SpanStart sid name parent tid) = True"
| "is_span_start e = False"

fun is_span_end :: "effect \<Rightarrow> bool" where
  "is_span_end (SpanEnd sid) = True"
| "is_span_end e = False"

fun is_counter_add :: "string \<Rightarrow> effect \<Rightarrow> bool" where
  "is_counter_add name (CounterAdd n v labels) = (n = name)"
| "is_counter_add name e = False"


fun is_db_effect :: "effect \<Rightarrow> bool" where
  "is_db_effect DbConnect = True"
| "is_db_effect (DbExecute q) = True"
| "is_db_effect DbCommit = True"
| "is_db_effect DbClose = True"
| "is_db_effect e = False"

text \<open>A fresh process on an empty database, with an APM transaction in progress.\<close>

definition init_world :: world where
  "init_world = \<lparr>store = [], effects = [], current_span = None, next_span_id = 1,
                 next_trace_id = 100, apm_trace_id = Some ''0af7651916cd43dd8448eb211c80319c''\<rparr>"

definition eur100 :: TransactionModel where
  "eur100 = \<lparr>amount = Finite 100, currency = ''EUR''\<rparr>"



section \<open>Notions used in the statements\<close>

text \<open>The database after \<open>get_conn\<close>: the table \<open>transactions\<close> exists.\<close>

definition ensure_transactions :: "database \<Rightarrow> database" where
  "ensure_transactions d =
     (case map_of d ''transactions'' of None \<Rightarrow> d @ [(''transactions'', [])] | Some rs \<Rightarrow> d)"

text \<open>The rows that can be read back from the table \<open>transactions\<close>.\<close>

definition transactions_of :: "database \<Rightarrow> row list" where
  "transactions_of d = (case map_of d ''transactions'' of None \<Rightarrow> [] | Some rs \<Rightarrow> rs)"

text \<open>The table the insert of a request names, by the branch its draw selects.\<close>

definition insert_target :: "pyfloat \<Rightarrow> real \<Rightarrow> string" where
  "insert_target fail_rate draw =
     (if float_lt (Finite draw) fail_rate then ''fake_db'' else ''transactions'')"

text \<open>
  The engine's answer to the insert of a request into the table \<open>tbl\<close>, when
  \<open>get_conn\<close> found the database \<open>d\<close>.
\<close>

definition insert_result :: "TransactionModel \<Rightarrow> string \<Rightarrow> database \<Rightarrow> exn + database" where
  "insert_result txn tbl d =
     run_sql (InsertInto tbl (amount txn) (currency txn) ''SUCCESS'') (ensure_transactions d)"

definition new_row :: "TransactionModel \<Rightarrow> row list \<Rightarrow> row" where
  "new_row txn rs = \<lparr>col_id = next_row_id rs, col_amount = bind_real (amount txn),
     col_currency = currency txn, col_status = ''SUCCESS''\<rparr>"

text \<open>The database calls of a request up to its insert into table \<open>tbl\<close>.\<close>

definition db_calls :: "TransactionModel \<Rightarrow> string \<Rightarrow> effect list" where
  "db_calls txn tbl =
     [DbConnect, DbExecute (CreateTableIfNotExists ''transactions''),
      DbExecute (InsertInto tbl (amount txn) (currency txn) ''SUCCESS'')]"

text \<open>The trace id of a span started in state \<open>w\<close>.\<close>

definition trace_of :: "world \<Rightarrow> nat" where
  "trace_of w = (case current_span w of None \<Rightarrow> next_trace_id w | Some p \<Rightarrow> snd p)"

text \<open>
  What the first variant's handler does before it turns to the database, for the span
  id \<open>sid\<close>, parent \<open>parent\<close> and trace id \<open>tid\<close> of its span \<open>process_payment\<close>.
\<close>

definition opening_effects :: "TransactionModel \<Rightarrow> nat \<Rightarrow> nat option \<Rightarrow> nat \<Rightarrow> effect list" where
  "opening_effects txn sid parent tid =
     [SpanStart sid ''process_payment'' parent tid,
      SetAttribute sid ''transaction.currency'' (AStr (currency txn)),
      SetAttribute sid ''transaction.amount'' (AFloat (amount txn)),
      LogRecord INFO [Text ''Starting transaction processing for '', Repr (amount txn),
        Text '' '', Text (currency txn)] None,
      SpanStart (Suc sid) ''fraud_check'' (Some sid) tid,
      SqrtLoop 500000,
      LogRecord INFO [Text ''Fraud check passed successfully''] None,
      SpanEnd (Suc sid)]"

text \<open>What the first variant's handler does after the \<open>try\<close> block was left by \<open>e\<close>.\<close>

definition failure_effects :: "nat \<Rightarrow> exn \<Rightarrow> effect list" where
  "failure_effects sid e =
     [RecordException sid e,
      SetStatus sid StatusError,
      LogRecord ERROR [Text ''Database failed to save transaction''] (Some e),
      RecordException sid (HTTPException 500 ''Transaction failed''),
      SetStatus sid StatusError,
      SpanEnd sid]"

text \<open>What it does after the \<open>try\<close> block came to its end.\<close>

definition success_effects :: "TransactionModel \<Rightarrow> nat \<Rightarrow> effect list" where
  "success_effects txn sid =
     [DbCommit, DbClose,
      CounterAdd ''business.transactions.total'' 1
        [(''currency'', currency txn), (''status'', ''success'')],
      HistogramRecord ''business.transaction.value'' (amount txn) [(''currency'', currency txn)],
      SpanEnd sid]"

text \<open>The id generator after the two spans of a transaction request.\<close>

definition after_ids :: "world \<Rightarrow> world" where
  "after_ids w = w\<lparr>next_span_id := Suc (Suc (next_span_id w)),
     next_trace_id := (case current_span w of None \<Rightarrow> Suc (next_trace_id w)
                       | Some p \<Rightarrow> next_trace_id w)\<rparr>"

text \<open>Effects on the APM transaction, which are dropped when there is none.\<close>

definition apm_only :: "world \<Rightarrow> effect list \<Rightarrow> effect list" where
  "apm_only w es = (case apm_trace_id w of None \<Rightarrow> [] | Some t \<Rightarrow> es)"

text \<open>The requests of a run that were answered with a body, from the list of results.\<close>

definition answered :: "request list \<Rightarrow> (exn + body) list \<Rightarrow> request list" where
  "answered reqs rs = map fst (filter (\<lambda>(req, r). \<not> isl r) (zip reqs rs))"

text \<open>The sample the first variant adds to its counter for a request.\<close>

definition success_sample :: "request \<Rightarrow> effect" where
  "success_sample req = CounterAdd ''business.transactions.total'' 1
     [(''currency'', currency (fst req)), (''status'', ''success'')]"


section \<open>The handlers in normal form\<close>

lemmas api_defs = emit_def log_record_def set_attribute_def record_exception_def set_status_def
  counter_add_def histogram_record_def apm_emit_def label_def set_transaction_result_def
  capture_exception_def get_trace_id_def

lemma get_conn_eq:
  "get_conn w = (Inr \<lparr>working = ensure_transactions (store w)\<rparr>,
     w\<lparr>effects := effects w @ [DbConnect, DbExecute (CreateTableIfNotExists ''transactions'')],
       store := ensure_transactions (store w)\<rparr>)"
  by (simp add: get_conn_def execute_def run_sql_def emit_def ensure_transactions_def
      split: option.splits)

lemma map_of_ensure:
  "map_of (ensure_transactions d) t =
     (if t = ''transactions'' \<and> map_of d t = None then Some [] else map_of d t)"
  by (auto simp: ensure_transactions_def map_add_def split: option.splits)

lemma insert_result_fake_db:
  assumes "map_of d ''fake_db'' = None"
  shows "insert_result txn ''fake_db'' d = Inl (OperationalError ''no such table: fake_db'')"
  using assms by (simp add: insert_result_def run_sql_def map_of_ensure)

lemma insert_result_transactions:
  "insert_result txn ''transactions'' d =
     (if has_surrogate (currency txn) then Inl (UnicodeEncodeError (currency txn))
      else Inr (AList.update ''transactions''
             (transactions_of d @ [new_row txn (transactions_of d)]) (ensure_transactions d)))"
  by (simp add: insert_result_def run_sql_def map_of_ensure transactions_of_def new_row_def
      split: option.splits)

lemma insert_result_target:
  assumes "map_of d ''fake_db'' = None"
  shows "insert_result txn (insert_target fail_rate draw) d =
     (if float_lt (Finite draw) fail_rate then Inl (OperationalError ''no such table: fake_db'')
      else if has_surrogate (currency txn) then Inl (UnicodeEncodeError (currency txn))
      else Inr (AList.update ''transactions''
             (transactions_of d @ [new_row txn (transactions_of d)]) (ensure_transactions d)))"
  using assms by (simp add: insert_target_def insert_result_fake_db insert_result_transactions)

lemma save_transaction_eq:
  "save_transaction txn fail_rate draw w =
    (case insert_result txn (insert_target fail_rate draw) (store w) of
       Inl e \<Rightarrow>
         (Inl e,
          w\<lparr>effects := effects w @ db_calls txn (insert_target fail_rate draw),
            store := ensure_transactions (store w)\<rparr>)
     | Inr d \<Rightarrow>
         (Inr (),
          w\<lparr>effects := effects w @ db_calls txn (insert_target fail_rate draw) @ [DbCommit, DbClose],
            store := d\<rparr>))"
  by (simp add: save_transaction_def get_conn_eq execute_def emit_def commit_def close_def
      insert_target_def insert_result_def db_calls_def split: sum.splits)

lemma process_transaction_eq:
  "process_transaction txn fail_rate draw w =
    (case insert_result txn (insert_target fail_rate draw) (store w) of
       Inl e \<Rightarrow>
         (Inl (HTTPException 500 ''Transaction failed''),
          (after_ids w)\<lparr>effects := effects w
               @ opening_effects txn (next_span_id w) (map_option fst (current_span w)) (trace_of w)
               @ db_calls txn (insert_target fail_rate draw)
               @ failure_effects (next_span_id w) e,
            store := ensure_transactions (store w)\<rparr>)
     | Inr d \<Rightarrow>
         (Inr [(''status'', JStr ''processed''), (''trace_id'', JInt (int (trace_of w)))],
          (after_ids w)\<lparr>effects := effects w
               @ opening_effects txn (next_span_id w) (map_option fst (current_span w)) (trace_of w)
               @ db_calls txn (insert_target fail_rate draw)
               @ success_effects txn (next_span_id w),
            store := d\<rparr>))"
proof (cases "insert_result txn (insert_target fail_rate draw) (store w)")
  case (Inl e)
  then show ?thesis
    by (simp add: process_transaction_def start_as_current_span_def process_payment_def
        fraud_check_def save_transaction_eq api_defs Let_def opening_effects_def trace_of_def
        after_ids_def failure_effects_def split: option.splits)
next
  case (Inr d)
  then show ?thesis
    by (simp add: process_transaction_def start_as_current_span_def process_payment_def
        fraud_check_def save_transaction_eq api_defs Let_def opening_effects_def trace_of_def
        after_ids_def success_effects_def split: option.splits)
qed

lemma process_transaction_result:
  "fst (process_transaction txn fail_rate draw w) =
     (case insert_result txn (insert_target fail_rate draw) (store w) of
        Inl e \<Rightarrow> Inl (HTTPException 500 ''Transaction failed'')
      | Inr d \<Rightarrow> Inr [(''status'', JStr ''processed''), (''trace_id'', JInt (int (trace_of w)))])"
  by (simp add: process_transaction_eq split: sum.splits)

lemma process_transaction_store:
  "store (snd (process_transaction txn fail_rate draw w)) =
     (case insert_result txn (insert_target fail_rate draw) (store w) of
        Inl e \<Rightarrow> ensure_transactions (store w)
      | Inr d \<Rightarrow> d)"
  by (simp add: process_transaction_eq split: sum.splits)

lemma process_transaction_effects:
  "effects (snd (process_transaction txn fail_rate draw w)) =
     effects w
     @ opening_effects txn (next_span_id w) (map_option fst (current_span w)) (trace_of w)
     @ db_calls txn (insert_target fail_rate draw)
     @ (case insert_result txn (insert_target fail_rate draw) (store w) of
          Inl e \<Rightarrow> failure_effects (next_span_id w) e
        | Inr d \<Rightarrow> success_effects txn (next_span_id w))"
  by (simp add: process_transaction_eq split: sum.splits)

lemma process_transaction_new_effects:
  "new_effects w (snd (process_transaction txn fail_rate draw w)) =
     opening_effects txn (next_span_id w) (map_option fst (current_span w)) (trace_of w)
     @ db_calls txn (insert_target fail_rate draw)
     @ (case insert_result txn (insert_target fail_rate draw) (store w) of
          Inl e \<Rightarrow> failure_effects (next_span_id w) e
        | Inr d \<Rightarrow> success_effects txn (next_span_id w))"
  by (simp add: new_effects_def process_transaction_effects)

lemma process_transaction_context:
  "current_span (snd (process_transaction txn fail_rate draw w)) = current_span w"
  by (simp add: process_transaction_eq after_ids_def split: sum.splits)

text \<open>The handler reads \<open>fail_rate\<close> in the comparison with the draw and nowhere else.\<close>

lemma save_transaction_branch:
  assumes "float_lt (Finite draw) fail_rate = float_lt (Finite draw) fail_rate'"
  shows "save_transaction txn fail_rate draw w = save_transaction txn fail_rate' draw w"
  unfolding save_transaction_def assms ..

lemma process_transaction_branch:
  assumes "float_lt (Finite draw) fail_rate = float_lt (Finite draw) fail_rate'"
  shows "process_transaction txn fail_rate draw w = process_transaction txn fail_rate' draw w"
proof -
  have "process_payment txn fail_rate draw = process_payment txn fail_rate' draw"
    unfolding process_payment_def save_transaction_branch [OF assms] ..
  then show ?thesis
    by (simp add: process_transaction_def)
qed

lemma db_effects_of_request:
  "filter is_db_effect (new_effects w (snd (process_transaction txn fail_rate draw w))) =
     db_calls txn (insert_target fail_rate draw)
     @ (case insert_result txn (insert_target fail_rate draw) (store w) of
          Inl e \<Rightarrow> [] | Inr d \<Rightarrow> [DbCommit, DbClose])"
  by (simp add: process_transaction_new_effects opening_effects_def db_calls_def
      failure_effects_def success_effects_def split: sum.splits)

subsection \<open>The second variant\<close>

lemma save_transaction_elk_eq:
  "save_transaction_elk txn fail_rate draw w =
    (case insert_result txn (insert_target fail_rate draw) (store w) of
       Inl e \<Rightarrow>
         (Inl e,
          w\<lparr>effects := effects w @ db_calls txn (insert_target fail_rate draw),
            store := ensure_transactions (store w)\<rparr>)
     | Inr d \<Rightarrow>
         (Inr (),
          w\<lparr>effects := effects w @ db_calls txn (insert_target fail_rate draw) @ [DbCommit, DbClose]
               @ apm_only w [ApmLabel [(''business_status'', AStr ''success'')], ApmResult ''SUCCESS''],
            store := d\<rparr>))"
  by (simp add: save_transaction_elk_def get_conn_eq execute_def api_defs commit_def close_def
      insert_target_def insert_result_def db_calls_def Let_def apm_only_def
      split: sum.splits option.splits)

lemma process_transaction_elk_eq:
  "process_transaction_elk txn fail_rate draw w =
    (case insert_result txn (insert_target fail_rate draw) (store w) of
       Inl e \<Rightarrow>
         (Inl (HTTPException 500 (''Transaction failed. trace_id: '' @ str_of (apm_trace_id w))),
          w\<lparr>effects := effects w
               @ apm_only w [ApmSpanStart ''process_payment'',
                    ApmLabel [(''transaction_currency'', AStr (currency txn)),
                      (''transaction_amount'', AFloat (amount txn))]]
               @ [LogRecord INFO [Text ''Starting transaction processing for '', Repr (amount txn),
                    Text '' '', Text (currency txn)] None]
               @ apm_only w [ApmSpanStart ''fraud_check'']
               @ [SqrtLoop 500000, LogRecord INFO [Text ''Fraud check passed successfully''] None]
               @ apm_only w [ApmSpanEnd ''fraud_check'' False]
               @ db_calls txn (insert_target fail_rate draw)
               @ [ApmCaptureException e]
               @ apm_only w [ApmLabel [(''business_status'', AStr ''failed'')], ApmResult ''FAILURE'']
               @ [LogRecord ERROR [Text ''Database failed to save transaction''] (Some e)]
               @ apm_only w [ApmSpanEnd ''process_payment'' True],
            store := ensure_transactions (store w)\<rparr>)
     | Inr d \<Rightarrow>
         (Inr [(''status'', JStr ''processed''),
               (''trace_id'', (case apm_trace_id w of None \<Rightarrow> JNull | Some t \<Rightarrow> JStr t))],
          w\<lparr>effects := effects w
               @ apm_only w [ApmSpanStart ''process_payment'',
                    ApmLabel [(''transaction_currency'', AStr (currency txn)),
                      (''transaction_amount'', AFloat (amount txn))]]
               @ [LogRecord INFO [Text ''Starting transaction processing for '', Repr (amount txn),
                    Text '' '', Text (currency txn)] None]
               @ apm_only w [ApmSpanStart ''fraud_check'']
               @ [SqrtLoop 500000, LogRecord INFO [Text ''Fraud check passed successfully''] None]
               @ apm_only w [ApmSpanEnd ''fraud_check'' False]
               @ db_calls txn (insert_target fail_rate draw) @ [DbCommit, DbClose]
               @ apm_only w [ApmLabel [(''business_status'', AStr ''success'')],
                    ApmResult ''SUCCESS'', ApmSpanEnd ''process_payment'' False],
            store := d\<rparr>))"
proof (cases "apm_trace_id w")
  case None
  note apm = this
  show ?thesis
  proof (cases "insert_result txn (insert_target fail_rate draw) (store w)")
    case (Inl e)
    with apm show ?thesis
      by (simp add: process_transaction_elk_def capture_span_def process_payment_elk_def
          fraud_check_elk_def save_transaction_elk_eq api_defs Let_def apm_only_def)
  next
    case (Inr d)
    with apm show ?thesis
      by (simp add: process_transaction_elk_def capture_span_def process_payment_elk_def
          fraud_check_elk_def save_transaction_elk_eq api_defs Let_def apm_only_def)
  qed
next
  case (Some t)
  note apm = this
  show ?thesis
  proof (cases "insert_result txn (insert_target fail_rate draw) (store w)")
    case (Inl e)
    with apm show ?thesis
      by (simp add: process_transaction_elk_def capture_span_def process_payment_elk_def
          fraud_check_elk_def save_transaction_elk_eq api_defs Let_def apm_only_def)
  next
    case (Inr d)
    with apm show ?thesis
      by (simp add: process_transaction_elk_def capture_span_def process_payment_elk_def
          fraud_check_elk_def save_transaction_elk_eq api_defs Let_def apm_only_def)
  qed
qed

lemma process_transaction_elk_result:
  "fst (process_transaction_elk txn fail_rate draw w) =
     (case insert_result txn (insert_target fail_rate draw) (store w) of
        Inl e \<Rightarrow>
          Inl (HTTPException 500 (''Transaction failed. trace_id: '' @ str_of (apm_trace_id w)))
      | Inr d \<Rightarrow> Inr [(''status'', JStr ''processed''),
               (''trace_id'', (case apm_trace_id w of None \<Rightarrow> JNull | Some t \<Rightarrow> JStr t))])"
  by (simp add: process_transaction_elk_eq split: sum.splits)





subsection \<open>The maintenance handler\<close>


subsection \<open>Rounding keeps the sign\<close>








subsection \<open>Runs of requests\<close>

lemma process_transaction_extends:
  "\<exists>es. effects (snd (process_transaction txn fail_rate draw w)) = effects w @ es"
  by (simp add: process_transaction_effects)

lemma serve_extends: "\<exists>es. effects (snd (serve reqs w)) = effects w @ es"
proof (induction reqs arbitrary: w)
  case Nil
  show ?case by simp
next
  case (Cons req reqs)
  obtain txn fail_rate draw where req: "req = (txn, fail_rate, draw)"
    by (cases req) auto
  obtain es where es: "effects (snd (process_transaction txn fail_rate draw w)) = effects w @ es"
    using process_transaction_extends by blast
  obtain es' where "effects (snd (serve reqs (snd (process_transaction txn fail_rate draw w)))) =
      effects (snd (process_transaction txn fail_rate draw w)) @ es'"
    using Cons.IH by blast
  with es show ?case
    by (simp add: req split_beta)
qed

lemma new_effects_trans:
  assumes "effects w1 = effects w @ es" and "effects w2 = effects w1 @ es'"
  shows "new_effects w w2 = new_effects w w1 @ new_effects w1 w2"
  using assms by (simp add: new_effects_def)

lemma counter_of_request:
  "filter (is_counter_add ''business.transactions.total'')
     (new_effects w (snd (process_transaction txn fail_rate draw w))) =
   (if isl (fst (process_transaction txn fail_rate draw w)) then []
    else [success_sample (txn, fail_rate, draw)])"
  by (simp add: process_transaction_new_effects process_transaction_result opening_effects_def
      db_calls_def failure_effects_def success_effects_def success_sample_def split: sum.splits)

text \<open>No request creates the table \<open>fake_db\<close>.\<close>

lemma process_transaction_keeps_fake_db_absent:
  assumes "map_of (store w) ''fake_db'' = None"
  shows "map_of (store (snd (process_transaction txn fail_rate draw w))) ''fake_db'' = None"
  using assms
  by (simp add: process_transaction_store insert_result_target map_of_ensure update_conv)

lemma serve_keeps_fake_db_absent:
  "map_of (store w) ''fake_db'' = None \<Longrightarrow> map_of (store (snd (serve reqs w))) ''fake_db'' = None"
proof (induction reqs arbitrary: w)
  case Nil
  then show ?case by simp
next
  case (Cons req reqs)
  obtain txn fail_rate draw where req: "req = (txn, fail_rate, draw)"
    by (cases req) auto
  from Cons.prems
  have "map_of (store (snd (process_transaction txn fail_rate draw w))) ''fake_db'' = None"
    by (rule process_transaction_keeps_fake_db_absent)
  then have "map_of (store (snd (serve reqs (snd (process_transaction txn fail_rate draw w)))))
      ''fake_db'' = None"
    by (rule Cons.IH)
  then show ?case
    by (simp add: req split_beta)
qed




section \<open>The persistence append and its injected failure\<close>




section \<open>The extreme failure rates\<close>




section \<open>The spans of a transaction request\<close>

text \<open>
  Claim C5. Every request to \<open>process_transaction\<close>, whatever the outcome of its
  persistence append, starts exactly two spans: its root span \<open>process_payment\<close>, a
  child of the span that was active when the handler was entered, and the span
  \<open>fraud_check\<close>, a child of the root span. Each of the two is ended exactly once, the
  root span last of all the handler does, and afterwards the span that was active
  before is active again.
\<close>

theorem process_transaction_spans:
  "filter is_span_start (new_effects w (snd (process_transaction txn fail_rate draw w))) =
     [SpanStart (next_span_id w) ''process_payment'' (map_option fst (current_span w)) (trace_of w),
      SpanStart (Suc (next_span_id w)) ''fraud_check'' (Some (next_span_id w)) (trace_of w)] \<and>
   filter is_span_end (new_effects w (snd (process_transaction txn fail_rate draw w))) =
     [SpanEnd (Suc (next_span_id w)), SpanEnd (next_span_id w)] \<and>
   last (effects (snd (process_transaction txn fail_rate draw w))) = SpanEnd (next_span_id w) \<and>
   current_span (snd (process_transaction txn fail_rate draw w)) = current_span w"
proof (cases "insert_result txn (insert_target fail_rate draw) (store w)")
  case (Inl e)
  then show ?thesis
    by (simp add: new_effects_def process_transaction_effects process_transaction_context
        opening_effects_def db_calls_def failure_effects_def)
next
  case (Inr d)
  then show ?thesis
    by (simp add: new_effects_def process_transaction_effects process_transaction_context
        opening_effects_def db_calls_def success_effects_def)
qed

text \<open>The same at a request whose persistence append fails.\<close>

theorem process_transaction_spans_witness:
  "fst (process_transaction eur100 (Finite 1) (1/2) init_world) =
     Inl (HTTPException 500 ''Transaction failed'') \<and>
   filter is_span_start (new_effects init_world
       (snd (process_transaction eur100 (Finite 1) (1/2) init_world))) =
     [SpanStart 1 ''process_payment'' None 100, SpanStart 2 ''fraud_check'' (Some 1) 100] \<and>
   filter is_span_end (new_effects init_world
       (snd (process_transaction eur100 (Finite 1) (1/2) init_world))) =
     [SpanEnd 2, SpanEnd 1] \<and>
   last (effects (snd (process_transaction eur100 (Finite 1) (1/2) init_world))) = SpanEnd 1 \<and>
   current_span (snd (process_transaction eur100 (Finite 1) (1/2) init_world)) = None"
proof -
  have "fst (process_transaction eur100 (Finite 1) (1/2) init_world) =
      Inl (HTTPException 500 ''Transaction failed'')"
    by (simp add: process_transaction_result insert_target_def insert_result_fake_db
        init_world_def)
  with process_transaction_spans [of init_world eur100 "Finite 1" "1/2"] show ?thesis
    by (simp add: init_world_def trace_of_def)
qed

section \<open>The order of the handler's steps\<close>



section \<open>Failure rates outside the unit interval\<close>

text \<open>
  Claim C10. The handler takes any float as \<open>fail_rate\<close>. With a draw of
  \<open>random.random()\<close>, which lies in the interval from 0 (included) to 1 (excluded):
  when \<open>fail_rate >= 1.0\<close> the draw is below it, the request inserts into \<open>fake_db\<close>,
  fails with HTTP 500 in a database that has no such table, and does exactly what it
  does for \<open>fail_rate = 1.0\<close>; when \<open>fail_rate <= 0.0\<close> the draw is not below it, the
  request inserts into \<open>transactions\<close>, succeeds when its currency has a UTF-8
  encoding, and does exactly what it does for \<open>fail_rate = 0.0\<close>.
\<close>

theorem fail_rate_out_of_range:
  assumes "0 \<le> draw" and "draw < 1"
  shows "(float_le (Finite 1) fail_rate \<longrightarrow>
            float_lt (Finite draw) fail_rate \<and>
            take 3 (filter is_db_effect
                (new_effects w (snd (process_transaction txn fail_rate draw w)))) =
              [DbConnect, DbExecute (CreateTableIfNotExists ''transactions''),
               DbExecute (InsertInto ''fake_db'' (amount txn) (currency txn) ''SUCCESS'')] \<and>
            (map_of (store w) ''fake_db'' = None \<longrightarrow>
               fst (process_transaction txn fail_rate draw w) =
                 Inl (HTTPException 500 ''Transaction failed'')) \<and>
            process_transaction txn fail_rate draw w = process_transaction txn (Finite 1) draw w) \<and>
         (float_le fail_rate (Finite 0) \<longrightarrow>
            \<not> float_lt (Finite draw) fail_rate \<and>
            take 3 (filter is_db_effect
                (new_effects w (snd (process_transaction txn fail_rate draw w)))) =
              [DbConnect, DbExecute (CreateTableIfNotExists ''transactions''),
               DbExecute (InsertInto ''transactions'' (amount txn) (currency txn) ''SUCCESS'')] \<and>
            (\<not> has_surrogate (currency txn) \<longrightarrow>
               fst (process_transaction txn fail_rate draw w) =
                 Inr [(''status'', JStr ''processed''), (''trace_id'', JInt (int (trace_of w)))]) \<and>
            process_transaction txn fail_rate draw w = process_transaction txn (Finite 0) draw w)"
proof (intro conjI impI)
  assume ge: "float_le (Finite 1) fail_rate"
  with assms show lt: "float_lt (Finite draw) fail_rate"
    by (cases fail_rate) simp_all
  then show "take 3 (filter is_db_effect
        (new_effects w (snd (process_transaction txn fail_rate draw w)))) =
      [DbConnect, DbExecute (CreateTableIfNotExists ''transactions''),
       DbExecute (InsertInto ''fake_db'' (amount txn) (currency txn) ''SUCCESS'')]"
    by (simp add: db_effects_of_request insert_target_def db_calls_def)
  from lt assms have "float_lt (Finite draw) fail_rate = float_lt (Finite draw) (Finite 1)"
    by simp
  then show "process_transaction txn fail_rate draw w = process_transaction txn (Finite 1) draw w"
    by (rule process_transaction_branch)
  assume "map_of (store w) ''fake_db'' = None"
  with lt show "fst (process_transaction txn fail_rate draw w) =
      Inl (HTTPException 500 ''Transaction failed'')"
    by (simp add: process_transaction_result insert_result_target)
next
  assume le: "float_le fail_rate (Finite 0)"
  with assms show nlt: "\<not> float_lt (Finite draw) fail_rate"
    by (cases fail_rate) simp_all
  then show "take 3 (filter is_db_effect
        (new_effects w (snd (process_transaction txn fail_rate draw w)))) =
      [DbConnect, DbExecute (CreateTableIfNotExists ''transactions''),
       DbExecute (InsertInto ''transactions'' (amount txn) (currency txn) ''SUCCESS'')]"
    by (simp add: db_effects_of_request insert_target_def db_calls_def)
  from nlt assms have "float_lt (Finite draw) fail_rate = float_lt (Finite draw) (Finite 0)"
    by simp
  then show "process_transaction txn fail_rate draw w = process_transaction txn (Finite 0) draw w"
    by (rule process_transaction_branch)
  assume "\<not> has_surrogate (currency txn)"
  with nlt show "fst (process_transaction txn fail_rate draw w) =
      Inr [(''status'', JStr ''processed''), (''trace_id'', JInt (int (trace_of w)))]"
    by (simp add: process_transaction_result insert_target_def insert_result_transactions)
qed

theorem fail_rate_out_of_range_witness:
  "(0::real) \<le> 1/2 \<and> (1/2::real) < 1 \<and>
   float_le (Finite 1) (Finite 7) \<and> float_le (Finite 1) PosInf \<and>
   float_le (Finite (- 3)) (Finite 0) \<and> float_le NegInf (Finite 0) \<and>
   map_of (store init_world) ''fake_db'' = None \<and> \<not> has_surrogate (currency eur100) \<and>
   fst (process_transaction eur100 (Finite 7) (1/2) init_world) =
     Inl (HTTPException 500 ''Transaction failed'') \<and>
   fst (process_transaction eur100 PosInf (1/2) init_world) =
     Inl (HTTPException 500 ''Transaction failed'') \<and>
   fst (process_transaction eur100 (Finite (- 3)) (1/2) init_world) =
     Inr [(''status'', JStr ''processed''), (''trace_id'', JInt 100)] \<and>
   fst (process_transaction eur100 NegInf (1/2) init_world) =
     Inr [(''status'', JStr ''processed''), (''trace_id'', JInt 100)] \<and>
   process_transaction eur100 (Finite 7) (1/2) init_world =
     process_transaction eur100 (Finite 1) (1/2) init_world \<and>
   process_transaction eur100 PosInf (1/2) init_world =
     process_transaction eur100 (Finite 1) (1/2) init_world \<and>
   process_transaction eur100 (Finite (- 3)) (1/2) init_world =
     process_transaction eur100 (Finite 0) (1/2) init_world \<and>
   process_transaction eur100 NegInf (1/2) init_world =
     process_transaction eur100 (Finite 0) (1/2) init_world"
proof -
  have draw: "(0::real) \<le> 1/2" "(1/2::real) < 1"
    by simp_all
  have above: "float_le (Finite 1) (Finite 7)" "float_le (Finite 1) PosInf"
    and below: "float_le (Finite (- 3)) (Finite 0)" "float_le NegInf (Finite 0)"
    by simp_all
  have absent: "map_of (store init_world) ''fake_db'' = None"
    by (simp add: init_world_def)
  have encodable: "\<not> has_surrogate (currency eur100)"
    by (simp add: eur100_def)
  have trace: "int (trace_of init_world) = 100"
    by (simp add: init_world_def trace_of_def)
  note range = fail_rate_out_of_range [OF draw]
  from range [of "Finite 7" init_world eur100] above absent
  have a: "fst (process_transaction eur100 (Finite 7) (1/2) init_world) =
        Inl (HTTPException 500 ''Transaction failed'')"
      "process_transaction eur100 (Finite 7) (1/2) init_world =
        process_transaction eur100 (Finite 1) (1/2) init_world"
    by blast+
  from range [of PosInf init_world eur100] above absent
  have b: "fst (process_transaction eur100 PosInf (1/2) init_world) =
        Inl (HTTPException 500 ''Transaction failed'')"
      "process_transaction eur100 PosInf (1/2) init_world =
        process_transaction eur100 (Finite 1) (1/2) init_world"
    by blast+
  from range [of "Finite (- 3)" init_world eur100] below encodable
  have c: "fst (process_transaction eur100 (Finite (- 3)) (1/2) init_world) =
        Inr [(''status'', JStr ''processed''), (''trace_id'', JInt (int (trace_of init_world)))]"
      "process_transaction eur100 (Finite (- 3)) (1/2) init_world =
        process_transaction eur100 (Finite 0) (1/2) init_world"
    by blast+
  from range [of NegInf init_world eur100] below encodable
  have d: "fst (process_transaction eur100 NegInf (1/2) init_world) =
        Inr [(''status'', JStr ''processed''), (''trace_id'', JInt (int (trace_of init_world)))]"
      "process_transaction eur100 NegInf (1/2) init_world =
        process_transaction eur100 (Finite 0) (1/2) init_world"
    by blast+
  show ?thesis
    by (intro conjI draw above below absent encodable a b c [unfolded trace] d [unfolded trace])
qed

section \<open>Reading back a stored transaction\<close>

text \<open>
  Claim C6. A request with \<open>amount = 100.0\<close> and \<open>currency = "EUR"\<close> that takes the
  success path (its draw is not below \<open>fail_rate\<close>) is answered with the status
  \<open>processed\<close>, and afterwards the table \<open>transactions\<close> holds its former rows followed
  by exactly one new row, with amount 100.0, currency \<open>EUR\<close> and status \<open>SUCCESS\<close>;
  no other table has changed.
\<close>

theorem roundtrip:
  assumes "\<not> float_lt (Finite draw) fail_rate"
  shows "fst (process_transaction \<lparr>amount = Finite 100, currency = ''EUR''\<rparr> fail_rate draw w) =
           Inr [(''status'', JStr ''processed''), (''trace_id'', JInt (int (trace_of w)))] \<and>
         transactions_of (store (snd (process_transaction
             \<lparr>amount = Finite 100, currency = ''EUR''\<rparr> fail_rate draw w))) =
           transactions_of (store w) @
             [\<lparr>col_id = next_row_id (transactions_of (store w)), col_amount = Some (Finite 100),
               col_currency = ''EUR'', col_status = ''SUCCESS''\<rparr>] \<and>
         (\<forall>t. t \<noteq> ''transactions'' \<longrightarrow>
            map_of (store (snd (process_transaction
               \<lparr>amount = Finite 100, currency = ''EUR''\<rparr> fail_rate draw w))) t =
            map_of (store w) t)"
  using assms
  by (simp add: process_transaction_result process_transaction_store insert_target_def
      insert_result_transactions)
     (simp add: transactions_of_def update_conv map_of_ensure new_row_def bind_real_def)

theorem roundtrip_witness:
  "\<not> float_lt (Finite (1/2)) (Finite 0) \<and>
   fst (process_transaction \<lparr>amount = Finite 100, currency = ''EUR''\<rparr> (Finite 0) (1/2) init_world) =
     Inr [(''status'', JStr ''processed''), (''trace_id'', JInt 100)] \<and>
   transactions_of (store (snd (process_transaction
       \<lparr>amount = Finite 100, currency = ''EUR''\<rparr> (Finite 0) (1/2) init_world))) =
     [\<lparr>col_id = 1, col_amount = Some (Finite 100), col_currency = ''EUR'',
       col_status = ''SUCCESS''\<rparr>]"
  using roundtrip [of "1/2" "Finite 0" init_world]
  by (simp add: init_world_def trace_of_def transactions_of_def next_row_id_def)

section \<open>The two variants\<close>




section \<open>The detail of a failed request\<close>

text \<open>
  The first variant answers every failed request with the same detail; the second
  variant appends the trace id of its APM transaction, the one it returns on success.
\<close>

lemma failure_detail_app4:
  assumes "isl (fst (process_transaction txn fail_rate draw w))"
  shows "fst (process_transaction txn fail_rate draw w) =
           Inl (HTTPException 500 ''Transaction failed'')"
  using assms by (simp add: process_transaction_result split: sum.splits)

lemma failure_detail_elk:
  assumes "isl (fst (process_transaction_elk txn fail_rate draw w))"
    and "apm_trace_id w = Some t"
  shows "fst (process_transaction_elk txn fail_rate draw w) =
           Inl (HTTPException 500 (''Transaction failed. trace_id: '' @ t))"
  using assms by (simp add: process_transaction_elk_result str_of_def split: sum.splits)

lemma success_trace_id_elk:
  assumes "\<not> isl (fst (process_transaction_elk txn fail_rate draw w))"
    and "apm_trace_id w = Some t"
  shows "fst (process_transaction_elk txn fail_rate draw w) =
           Inr [(''status'', JStr ''processed''), (''trace_id'', JStr t)]"
  using assms by (simp add: process_transaction_elk_result split: sum.splits)

text \<open>
  Claim C1, at a request whose persistence append fails (\<open>fail_rate = 1.0\<close>), from
  two states whose next trace ids are 100 and 200. The first variant answers both with
  the detail \<open>Transaction failed\<close>, which names no trace id, while the same requests
  on the success path return the trace ids 100 and 200. The second variant answers the
  failing request with a detail that ends in the trace id it returns on success.
\<close>

theorem failure_detail_without_trace_id:
  "fst (process_transaction eur100 (Finite 1) (1/2) init_world) =
     Inl (HTTPException 500 ''Transaction failed'') \<and>
   fst (process_transaction eur100 (Finite 1) (1/2) (init_world\<lparr>next_trace_id := 200\<rparr>)) =
     Inl (HTTPException 500 ''Transaction failed'') \<and>
   fst (process_transaction eur100 (Finite 0) (1/2) init_world) =
     Inr [(''status'', JStr ''processed''), (''trace_id'', JInt 100)] \<and>
   fst (process_transaction eur100 (Finite 0) (1/2) (init_world\<lparr>next_trace_id := 200\<rparr>)) =
     Inr [(''status'', JStr ''processed''), (''trace_id'', JInt 200)] \<and>
   fst (process_transaction_elk eur100 (Finite 1) (1/2) init_world) =
     Inl (HTTPException 500 ''Transaction failed. trace_id: 0af7651916cd43dd8448eb211c80319c'') \<and>
   fst (process_transaction_elk eur100 (Finite 0) (1/2) init_world) =
     Inr [(''status'', JStr ''processed''), (''trace_id'', JStr ''0af7651916cd43dd8448eb211c80319c'')]"
  by (simp add: process_transaction_result process_transaction_elk_result insert_target_def
      insert_result_transactions insert_result_fake_db init_world_def)
     (simp add: trace_of_def str_of_def eur100_def)

section \<open>The transaction counter\<close>

text \<open>
  Claim C2, as the code has it. A run of requests gives one result for each request,
  and adds to the counter \<open>business.transactions.total\<close> one sample for each request
  that is answered with a body, in order, and none for a request that fails. Every
  sample has the value 1, the currency of its request and the status \<open>success\<close>.
\<close>

theorem serve_counter_samples:
  "length (fst (serve reqs w)) = length reqs \<and>
   filter (is_counter_add ''business.transactions.total'') (new_effects w (snd (serve reqs w))) =
     map success_sample (answered reqs (fst (serve reqs w)))"
proof (induction reqs arbitrary: w)
  case Nil
  show ?case by (simp add: new_effects_def answered_def)
next
  case (Cons req reqs)
  obtain txn fail_rate draw where req: "req = (txn, fail_rate, draw)"
    by (cases req) auto
  let ?w1 = "snd (process_transaction txn fail_rate draw w)"
  obtain es where es: "effects ?w1 = effects w @ es"
    using process_transaction_extends by blast
  obtain es' where es': "effects (snd (serve reqs ?w1)) = effects ?w1 @ es'"
    using serve_extends by blast
  have split: "new_effects w (snd (serve reqs ?w1)) =
      new_effects w ?w1 @ new_effects ?w1 (snd (serve reqs ?w1))"
    using es es' by (rule new_effects_trans)
  have serve_req: "serve (req # reqs) w =
      (fst (process_transaction txn fail_rate draw w) # fst (serve reqs ?w1), snd (serve reqs ?w1))"
    by (simp add: req split_beta)
  show ?case
    unfolding serve_req
    by (simp add: split counter_of_request Cons.IH answered_def req)
qed

theorem serve_counter_samples_witness:
  "fst (serve [(eur100, Finite 1, 1/2), (eur100, Finite 0, 1/2)] init_world) =
     [Inl (HTTPException 500 ''Transaction failed''),
      Inr [(''status'', JStr ''processed''), (''trace_id'', JInt 101)]] \<and>
   filter (is_counter_add ''business.transactions.total'')
     (new_effects init_world (snd (serve [(eur100, Finite 1, 1/2), (eur100, Finite 0, 1/2)] init_world))) =
     [CounterAdd ''business.transactions.total'' 1 [(''currency'', ''EUR''), (''status'', ''success'')]]"
proof -
  have first: "fst (process_transaction eur100 (Finite 1) (1/2) init_world) =
      Inl (HTTPException 500 ''Transaction failed'')"
    by (simp add: process_transaction_result insert_target_def insert_result_fake_db
        init_world_def)
  have state: "trace_of (snd (process_transaction eur100 (Finite 1) (1/2) init_world)) = 101"
    by (simp add: process_transaction_eq insert_target_def insert_result_fake_db init_world_def
        trace_of_def after_ids_def)
  have encodable: "\<not> has_surrogate (currency eur100)"
    by (simp add: eur100_def)
  have second: "fst (process_transaction eur100 (Finite 0) (1/2)
        (snd (process_transaction eur100 (Finite 1) (1/2) init_world))) =
      Inr [(''status'', JStr ''processed''), (''trace_id'', JInt 101)]"
    by (simp add: process_transaction_result insert_target_def insert_result_transactions state
        encodable)
  have results: "fst (serve [(eur100, Finite 1, 1/2), (eur100, Finite 0, 1/2)] init_world) =
      [Inl (HTTPException 500 ''Transaction failed''),
       Inr [(''status'', JStr ''processed''), (''trace_id'', JInt 101)]]"
    by (simp add: split_beta first second)
  from serve_counter_samples [of "[(eur100, Finite 1, 1/2), (eur100, Finite 0, 1/2)]" init_world]
  have "filter (is_counter_add ''business.transactions.total'')
      (new_effects init_world
        (snd (serve [(eur100, Finite 1, 1/2), (eur100, Finite 0, 1/2)] init_world))) =
      map success_sample (answered [(eur100, Finite 1, 1/2), (eur100, Finite 0, 1/2)]
        [Inl (HTTPException 500 ''Transaction failed''),
         Inr [(''status'', JStr ''processed''), (''trace_id'', JInt 101)]])"
    unfolding results by (rule conjunct2)
  then have "filter (is_counter_add ''business.transactions.total'')
      (new_effects init_world
        (snd (serve [(eur100, Finite 1, 1/2), (eur100, Finite 0, 1/2)] init_world))) =
      [CounterAdd ''business.transactions.total'' 1 [(''currency'', ''EUR''), (''status'', ''success'')]]"
    by (simp add: answered_def success_sample_def eur100_def)
  with results show ?thesis
    by (rule conjI)
qed

text \<open>
  Claim C2 as stated fails: a run of one request whose persistence append fails adds
  no sample to the counter.
\<close>

theorem failed_request_not_counted:
  "length (filter (is_counter_add ''business.transactions.total'')
     (new_effects init_world (snd (serve [(eur100, Finite 1, 1/2)] init_world)))) \<noteq>
   length [(eur100, Finite 1, 1/2::real)]"
  by (simp add: split_beta counter_of_request process_transaction_result insert_target_def
      insert_result_fake_db init_world_def)

section \<open>The maintenance request\<close>




end
